theory Spec2Isabelle
  imports Main "HOL-Library.Word"
begin

section \<open>Package logger: modes and levels\<close>

text \<open>
  The package declares \<^verbatim>\<open>type mode int\<close> and \<^verbatim>\<open>type level int\<close> and numbers
  their constants with \<^verbatim>\<open>iota\<close>. Values of both types are only ever compared for
  equality (in a \<^verbatim>\<open>switch\<close>), so they are modelled as integers; a caller can pass
  any integer constant, not only the named ones.
\<close>

type_synonym mode = int
type_synonym level = int

definition Developemnt :: mode where "Developemnt = 0"
definition Production :: mode where "Production = 1"

definition Debug :: level where "Debug = 0"
definition Info :: level where "Info = 1"
definition Warn :: level where "Warn = 2"
definition Error :: level where "Error = 3"
definition Default :: level where "Default = Info"

section \<open>The logging engine the package configures\<close>

text \<open>
  The package is a facade over the zap logging library (packages zap, zapcore) and
  the lumberjack rotating-file writer. Their sources are not part of the repository.
  The definitions of this section describe the library values and operations the
  package calls, following the libraries' documented behaviour and the account of
  cores and sinks in the specification, as far as the package's behaviour depends on
  them: severities and their order,
  encoder configurations, cores, write syncers, and the path of one logging call
  through a logger. Formatting of an entry into bytes, timestamps, caller lookup and
  file rotation are not described: a destination records which entry reached it and
  through which encoder.
\<close>

subsection \<open>Severities\<close>

text \<open>\<^verbatim>\<open>zapcore.Level\<close> is an \<^verbatim>\<open>int8\<close>; levels are compared as signed numbers.\<close>

type_synonym zapcore_Level = "8 word"

definition DebugLevel :: zapcore_Level where "DebugLevel = - 1"
definition InfoLevel :: zapcore_Level where "InfoLevel = 0"
definition WarnLevel :: zapcore_Level where "WarnLevel = 1"
definition ErrorLevel :: zapcore_Level where "ErrorLevel = 2"
definition DPanicLevel :: zapcore_Level where "DPanicLevel = 3"
definition PanicLevel :: zapcore_Level where "PanicLevel = 4"
definition FatalLevel :: zapcore_Level where "FatalLevel = 5"

text \<open>
  A \<^verbatim>\<open>zapcore.LevelEnabler\<close> decides whether a severity is enabled. A
  \<^verbatim>\<open>zap.LevelEnablerFunc\<close> is the predicate itself; a \<^verbatim>\<open>zapcore.Level\<close> used as
  an enabler enables every level that is at least itself
  (\<^verbatim>\<open>func (l Level) Enabled(lvl Level) bool { return lvl >= l }\<close>).
\<close>

type_synonym LevelEnabler = "zapcore_Level \<Rightarrow> bool"

definition Level_Enabled :: "zapcore_Level \<Rightarrow> LevelEnabler" where
  "Level_Enabled l lvl = (l \<le>s lvl)"

subsection \<open>Encoder configurations\<close>

datatype LevelEncoder =
  LowercaseLevelEncoder | LowercaseColorLevelEncoder | CapitalLevelEncoder | CapitalColorLevelEncoder

datatype TimeEncoder =
  EpochTimeEncoder | EpochMillisTimeEncoder | EpochNanosTimeEncoder
  | ISO8601TimeEncoder | RFC3339TimeEncoder | RFC3339NanoTimeEncoder

datatype DurationEncoder =
  SecondsDurationEncoder | NanosDurationEncoder | MillisDurationEncoder | StringDurationEncoder

datatype CallerEncoder = FullCallerEncoder | ShortCallerEncoder

datatype NameEncoder = FullNameEncoder

text \<open>
  \<^verbatim>\<open>zapcore.EncoderConfig\<close>. The encoder fields hold functions in Go and may be nil:
  they are options over the encoders zapcore provides. The field
  \<^verbatim>\<open>NewReflectedEncoder\<close>, nil in both base configurations and never assigned by
  the package, is left out.
\<close>

record EncoderConfig =
  MessageKey :: string
  LevelKey :: string
  TimeKey :: string
  NameKey :: string
  CallerKey :: string
  FunctionKey :: string
  StacktraceKey :: string
  SkipLineEnding :: bool
  LineEnding :: string
  EncodeLevel :: "LevelEncoder option"
  EncodeTime :: "TimeEncoder option"
  EncodeDuration :: "DurationEncoder option"
  EncodeCaller :: "CallerEncoder option"
  EncodeName :: "NameEncoder option"
  ConsoleSeparator :: string

text \<open>\<^verbatim>\<open>zapcore.OmitKey\<close>: a field whose key is the empty string is not written.\<close>

definition OmitKey :: string where "OmitKey = ''''"

definition DefaultLineEnding :: string where "DefaultLineEnding = [CHR 0x0A]"

text \<open>The two base configurations of zap, which the package then overrides field by field.\<close>

definition zap_NewDevelopmentEncoderConfig :: EncoderConfig where
  "zap_NewDevelopmentEncoderConfig =
     \<lparr> MessageKey = ''M'', LevelKey = ''L'', TimeKey = ''T'', NameKey = ''N'',
       CallerKey = ''C'', FunctionKey = OmitKey, StacktraceKey = ''S'',
       SkipLineEnding = False, LineEnding = DefaultLineEnding,
       EncodeLevel = Some CapitalLevelEncoder, EncodeTime = Some ISO8601TimeEncoder,
       EncodeDuration = Some StringDurationEncoder, EncodeCaller = Some ShortCallerEncoder,
       EncodeName = None, ConsoleSeparator = '''' \<rparr>"

definition zap_NewProductionEncoderConfig :: EncoderConfig where
  "zap_NewProductionEncoderConfig =
     \<lparr> MessageKey = ''msg'', LevelKey = ''level'', TimeKey = ''ts'', NameKey = ''logger'',
       CallerKey = ''caller'', FunctionKey = OmitKey, StacktraceKey = ''stacktrace'',
       SkipLineEnding = False, LineEnding = DefaultLineEnding,
       EncodeLevel = Some LowercaseLevelEncoder, EncodeTime = Some EpochTimeEncoder,
       EncodeDuration = Some SecondsDurationEncoder, EncodeCaller = Some ShortCallerEncoder,
       EncodeName = None, ConsoleSeparator = '''' \<rparr>"

datatype Encoder = NewJSONEncoder EncoderConfig | NewConsoleEncoder EncoderConfig

subsection \<open>Write syncers\<close>

text \<open>
  \<^verbatim>\<open>lumberjack.Logger\<close>: a writer that appends to \<^verbatim>\<open>Filename\<close> and rotates the file
  when it would grow past \<^verbatim>\<open>MaxSize\<close> megabytes. The file is opened or created by
  the first write, not when the struct is built.
\<close>

record lumberjack_Logger =
  Filename :: string
  MaxSize :: int
  MaxAge :: int
  MaxBackups :: int
  LocalTime :: bool
  Compress :: bool

text \<open>
  A \<^verbatim>\<open>zapcore.WriteSyncer\<close> is an interface value: the standard streams, a
  lumberjack writer wrapped by \<^verbatim>\<open>zapcore.AddSync\<close>, or a multi-writer over a slice
  of write syncers. An element of the slice can be the nil interface value, which is
  \<open>None\<close>.
\<close>

datatype WriteSyncer =
  os_Stdout
  | os_Stderr
  | AddSync lumberjack_Logger
  | multiWriteSyncer "WriteSyncer option list"

text \<open>
  \<^verbatim>\<open>zapcore.NewMultiWriteSyncer\<close> returns its only argument when there is exactly
  one, and a multi-writer over all of them otherwise.
\<close>

definition NewMultiWriteSyncer :: "WriteSyncer option list \<Rightarrow> WriteSyncer option" where
  "NewMultiWriteSyncer ws = (if length ws = 1 then ws ! 0 else Some (multiWriteSyncer ws))"

subsection \<open>Cores\<close>

datatype Core =
  ioCore Encoder "WriteSyncer option" LevelEnabler
  | multiCore "Core list"
  | nopCore

definition NewCore :: "Encoder \<Rightarrow> WriteSyncer option \<Rightarrow> LevelEnabler \<Rightarrow> Core" where
  "NewCore enc ws enab = ioCore enc ws enab"

text \<open>
  \<^verbatim>\<open>zapcore.NewTee\<close>: no core gives the no-op core, one core gives that core, more
  give a core that duplicates every entry to each of them.
\<close>

definition NewTee :: "Core list \<Rightarrow> Core" where
  "NewTee cores =
     (if length cores = 0 then nopCore
      else if length cores = 1 then cores ! 0
      else multiCore cores)"

fun Core_Enabled :: "Core \<Rightarrow> zapcore_Level \<Rightarrow> bool" where
  "Core_Enabled (ioCore enc out enab) lvl = enab lvl"
| "Core_Enabled (multiCore cs) lvl = list_ex (\<lambda>c. Core_Enabled c lvl) cs"
| "Core_Enabled nopCore lvl = False"

subsection \<open>Entries, destinations and outcomes\<close>

text \<open>
  The message of a sugared call is built by \<^verbatim>\<open>fmt.Sprint\<close>, \<^verbatim>\<open>fmt.Sprintf\<close> or
  \<^verbatim>\<open>fmt.Sprintln\<close> from the arguments; it is kept as the call shape and the
  arguments, each argument standing for its rendering.
\<close>

datatype message =
  Sprint "string list"
  | Sprintf string "string list"
  | Sprintln "string list"

record Entry =
  Level :: zapcore_Level
  LoggerName :: string
  Message :: message

text \<open>
  What a destination receives: an entry together with the encoder that rendered it,
  or the line by which a logger reports that a core failed to write.
\<close>

datatype written = Encoded Encoder Entry | WriteErrorReport

text \<open>
  The world outside the program: what has reached the two standard streams and each
  file so far, whether the operating system accepts a write to each standard stream
  (a closed or broken stream returns an error), and which paths the file system lets
  the process open or create.
\<close>

record world =
  stdout :: "written list"
  stderr :: "written list"
  disk :: "string \<Rightarrow> written list"
  stdout_writable :: bool
  stderr_writable :: bool
  can_open :: "string \<Rightarrow> bool"

text \<open>
  A write returns normally, returns an error, or does not return because the program
  dereferenced a nil interface value (a runtime panic). A write to a standard stream
  or to a file that fails returns the error and leaves the destination as it was.
\<close>

datatype wres = Wrote world | Failed world | Crashed world

fun WriteSyncer_Write :: "WriteSyncer \<Rightarrow> written \<Rightarrow> world \<Rightarrow> wres"
  and multiWriteSyncer_Write :: "WriteSyncer option list \<Rightarrow> written \<Rightarrow> bool \<Rightarrow> world \<Rightarrow> wres"
where
  "WriteSyncer_Write os_Stdout p w =
     (if stdout_writable w then Wrote (w\<lparr>stdout := stdout w @ [p]\<rparr>) else Failed w)"
| "WriteSyncer_Write os_Stderr p w =
     (if stderr_writable w then Wrote (w\<lparr>stderr := stderr w @ [p]\<rparr>) else Failed w)"
| "WriteSyncer_Write (AddSync lj) p w =
     (if can_open w (Filename lj)
      then Wrote (w\<lparr>disk := (disk w)(Filename lj := disk w (Filename lj) @ [p])\<rparr>)
      else Failed w)"
| "WriteSyncer_Write (multiWriteSyncer ws) p w = multiWriteSyncer_Write ws p False w"
| "multiWriteSyncer_Write [] p err w = (if err then Failed w else Wrote w)"
| "multiWriteSyncer_Write (None # ws) p err w = Crashed w"
| "multiWriteSyncer_Write (Some x # ws) p err w =
     (case WriteSyncer_Write x p w of
        Wrote w' \<Rightarrow> multiWriteSyncer_Write ws p err w'
      | Failed w' \<Rightarrow> multiWriteSyncer_Write ws p True w'
      | Crashed w' \<Rightarrow> Crashed w')"

subsection \<open>One logging call through a logger\<close>

text \<open>
  Checking an entry against a core collects, in order, the io-cores that enable its
  level: each contributes the encoder and the writer it will use.
\<close>

fun Core_Check :: "Core \<Rightarrow> Entry \<Rightarrow> (Encoder \<times> WriteSyncer option) list" where
  "Core_Check (ioCore enc out enab) ent = (if enab (Level ent) then [(enc, out)] else [])"
| "Core_Check (multiCore cs) ent = concat (map (\<lambda>c. Core_Check c ent) cs)"
| "Core_Check nopCore ent = []"

text \<open>
  \<^verbatim>\<open>ioCore.Write\<close> encodes the entry and hands it to the writer. Calling
  \<^verbatim>\<open>Write\<close> on a nil writer is a nil dereference. After an entry above Error the
  core also syncs its writer; a sync adds nothing to a destination and comes after the
  write, so it is not described.
\<close>

fun ioCore_Write :: "Encoder \<times> WriteSyncer option \<Rightarrow> Entry \<Rightarrow> world \<Rightarrow> wres" where
  "ioCore_Write (enc, None) ent w = Crashed w"
| "ioCore_Write (enc, Some out) ent w = WriteSyncer_Write out (Encoded enc ent) w"

text \<open>
  \<^verbatim>\<open>CheckedEntry.Write\<close> writes the entry to every collected core in order. Errors
  returned by cores are gathered and reported once on the logger's error output, which
  for \<^verbatim>\<open>zap.New\<close> without options is standard error; the result of writing the
  report is ignored, so the report is lost when standard error does not accept it. A
  runtime panic in a core leaves the loop at once.
\<close>

definition report_write_error :: "world \<Rightarrow> world" where
  "report_write_error w =
     (if stderr_writable w then w\<lparr>stderr := stderr w @ [WriteErrorReport]\<rparr> else w)"

datatype cres = Completed world | Aborted world

fun CheckedEntry_Write ::
  "(Encoder \<times> WriteSyncer option) list \<Rightarrow> Entry \<Rightarrow> bool \<Rightarrow> world \<Rightarrow> cres" where
  "CheckedEntry_Write [] ent err w =
     (if err then Completed (report_write_error w) else Completed w)"
| "CheckedEntry_Write (c # cs) ent err w =
     (case ioCore_Write c ent w of
        Wrote w' \<Rightarrow> CheckedEntry_Write cs ent err w'
      | Failed w' \<Rightarrow> CheckedEntry_Write cs ent True w'
      | Crashed w' \<Rightarrow> Aborted w')"

text \<open>
  \<^verbatim>\<open>zap.Logger\<close>, reduced to the fields that decide what a call does: the core,
  the logger's name and the development flag (set only by the option
  \<^verbatim>\<open>zap.Development()\<close>).
\<close>

record zap_Logger =
  core :: Core
  name :: string
  development :: bool

definition zap_New :: "Core \<Rightarrow> zap_Logger" where
  "zap_New c = \<lparr> core = c, name = [], development = False \<rparr>"

definition Named :: "zap_Logger \<Rightarrow> string \<Rightarrow> zap_Logger" where
  "Named log s =
     (if s = [] then log
      else if name log = [] then log\<lparr>name := s\<rparr>
      else log\<lparr>name := name log @ ''.'' @ s\<rparr>)"

record SugaredLogger =
  base :: zap_Logger

definition Sugar :: "zap_Logger \<Rightarrow> SugaredLogger" where
  "Sugar log = \<lparr> base = log \<rparr>"

text \<open>
  What happens after the entry is written (\<^verbatim>\<open>zapcore.CheckWriteAction\<close>), as
  \<^verbatim>\<open>Logger.check\<close> sets it: a Panic entry panics, a Fatal entry exits the process,
  a DPanic entry panics only when the logger is in development.
\<close>

datatype CheckWriteAction = WriteThenNoop | WriteThenPanic | WriteThenFatal

definition check_after :: "zap_Logger \<Rightarrow> zapcore_Level \<Rightarrow> CheckWriteAction" where
  "check_after log lvl =
     (if lvl = PanicLevel then WriteThenPanic
      else if lvl = FatalLevel then WriteThenFatal
      else if lvl = DPanicLevel then (if development log then WriteThenPanic else WriteThenNoop)
      else WriteThenNoop)"

text \<open>
  How a call ends for its caller: it returns, it panics (with the logged message, or
  with the runtime's nil-dereference error), or the process exits with a status. Each
  outcome carries the world as the call left it.
\<close>

datatype panic_value = log_panic message | nil_dereference

datatype outcome = Returns world | Panics panic_value world | Exits int world

fun world_of :: "outcome \<Rightarrow> world" where
  "world_of (Returns w) = w"
| "world_of (Panics v w) = w"
| "world_of (Exits n w) = w"

text \<open>
  \<^verbatim>\<open>SugaredLogger.log\<close>: a call below DPanic whose level no core enables returns at
  once. Otherwise the entry is checked against the core and written to the cores that
  took it, and the action for its level follows.
\<close>

definition SugaredLogger_log :: "SugaredLogger \<Rightarrow> zapcore_Level \<Rightarrow> message \<Rightarrow> world \<Rightarrow> outcome" where
  "SugaredLogger_log s lvl msg w =
     (if lvl <s DPanicLevel \<and> \<not> Core_Enabled (core (base s)) lvl then Returns w
      else
        let ent = \<lparr> Level = lvl, LoggerName = name (base s), Message = msg \<rparr> in
        case CheckedEntry_Write (Core_Check (core (base s)) ent) ent False w of
          Aborted w' \<Rightarrow> Panics nil_dereference w'
        | Completed w' \<Rightarrow>
            (case check_after (base s) lvl of
               WriteThenNoop \<Rightarrow> Returns w'
             | WriteThenPanic \<Rightarrow> Panics (log_panic msg) w'
             | WriteThenFatal \<Rightarrow> Exits 1 w'))"

definition SugaredLogger_Debug :: "SugaredLogger \<Rightarrow> string list \<Rightarrow> world \<Rightarrow> outcome" where
  "SugaredLogger_Debug s args = SugaredLogger_log s DebugLevel (Sprint args)"
definition SugaredLogger_Debugf :: "SugaredLogger \<Rightarrow> string \<Rightarrow> string list \<Rightarrow> world \<Rightarrow> outcome" where
  "SugaredLogger_Debugf s template args = SugaredLogger_log s DebugLevel (Sprintf template args)"
definition SugaredLogger_Debugln :: "SugaredLogger \<Rightarrow> string list \<Rightarrow> world \<Rightarrow> outcome" where
  "SugaredLogger_Debugln s args = SugaredLogger_log s DebugLevel (Sprintln args)"

definition SugaredLogger_Info :: "SugaredLogger \<Rightarrow> string list \<Rightarrow> world \<Rightarrow> outcome" where
  "SugaredLogger_Info s args = SugaredLogger_log s InfoLevel (Sprint args)"
definition SugaredLogger_Infof :: "SugaredLogger \<Rightarrow> string \<Rightarrow> string list \<Rightarrow> world \<Rightarrow> outcome" where
  "SugaredLogger_Infof s template args = SugaredLogger_log s InfoLevel (Sprintf template args)"
definition SugaredLogger_Infoln :: "SugaredLogger \<Rightarrow> string list \<Rightarrow> world \<Rightarrow> outcome" where
  "SugaredLogger_Infoln s args = SugaredLogger_log s InfoLevel (Sprintln args)"

definition SugaredLogger_Warn :: "SugaredLogger \<Rightarrow> string list \<Rightarrow> world \<Rightarrow> outcome" where
  "SugaredLogger_Warn s args = SugaredLogger_log s WarnLevel (Sprint args)"
definition SugaredLogger_Warnf :: "SugaredLogger \<Rightarrow> string \<Rightarrow> string list \<Rightarrow> world \<Rightarrow> outcome" where
  "SugaredLogger_Warnf s template args = SugaredLogger_log s WarnLevel (Sprintf template args)"
definition SugaredLogger_Warnln :: "SugaredLogger \<Rightarrow> string list \<Rightarrow> world \<Rightarrow> outcome" where
  "SugaredLogger_Warnln s args = SugaredLogger_log s WarnLevel (Sprintln args)"

definition SugaredLogger_Error :: "SugaredLogger \<Rightarrow> string list \<Rightarrow> world \<Rightarrow> outcome" where
  "SugaredLogger_Error s args = SugaredLogger_log s ErrorLevel (Sprint args)"
definition SugaredLogger_Errorf :: "SugaredLogger \<Rightarrow> string \<Rightarrow> string list \<Rightarrow> world \<Rightarrow> outcome" where
  "SugaredLogger_Errorf s template args = SugaredLogger_log s ErrorLevel (Sprintf template args)"
definition SugaredLogger_Errorln :: "SugaredLogger \<Rightarrow> string list \<Rightarrow> world \<Rightarrow> outcome" where
  "SugaredLogger_Errorln s args = SugaredLogger_log s ErrorLevel (Sprintln args)"

definition SugaredLogger_DPanic :: "SugaredLogger \<Rightarrow> string list \<Rightarrow> world \<Rightarrow> outcome" where
  "SugaredLogger_DPanic s args = SugaredLogger_log s DPanicLevel (Sprint args)"
definition SugaredLogger_DPanicf :: "SugaredLogger \<Rightarrow> string \<Rightarrow> string list \<Rightarrow> world \<Rightarrow> outcome" where
  "SugaredLogger_DPanicf s template args = SugaredLogger_log s DPanicLevel (Sprintf template args)"
definition SugaredLogger_Panicln :: "SugaredLogger \<Rightarrow> string list \<Rightarrow> world \<Rightarrow> outcome" where
  "SugaredLogger_Panicln s args = SugaredLogger_log s PanicLevel (Sprintln args)"

definition SugaredLogger_Fatal :: "SugaredLogger \<Rightarrow> string list \<Rightarrow> world \<Rightarrow> outcome" where
  "SugaredLogger_Fatal s args = SugaredLogger_log s FatalLevel (Sprint args)"
definition SugaredLogger_Fatalf :: "SugaredLogger \<Rightarrow> string \<Rightarrow> string list \<Rightarrow> world \<Rightarrow> outcome" where
  "SugaredLogger_Fatalf s template args = SugaredLogger_log s FatalLevel (Sprintf template args)"
definition SugaredLogger_Fatalln :: "SugaredLogger \<Rightarrow> string list \<Rightarrow> world \<Rightarrow> outcome" where
  "SugaredLogger_Fatalln s args = SugaredLogger_log s FatalLevel (Sprintln args)"

section \<open>Package logger: the configuration builder\<close>

text \<open>\<^verbatim>\<open>zapLevel\<close>: Debug and Error have a case of their own, every other value is Info.\<close>

definition zapLevel :: "level \<Rightarrow> zapcore_Level" where
  "zapLevel level =
     (if level = Debug then DebugLevel
      else if level = Error then ErrorLevel
      else InfoLevel)"

definition infoPriority :: "level \<Rightarrow> LevelEnabler" where
  "infoPriority minLevel = (let minLV = zapLevel minLevel in
     (\<lambda>lv. minLV \<le>s lv \<and> lv <s ErrorLevel))"

definition errorPriority :: "level \<Rightarrow> LevelEnabler" where
  "errorPriority minLevel = (let minLV = zapLevel minLevel in
     (\<lambda>lv. minLV \<le>s lv \<and> ErrorLevel \<le>s lv))"

definition developmentEncoderConfig :: EncoderConfig where
  "developmentEncoderConfig =
     zap_NewDevelopmentEncoderConfig
       \<lparr> NameKey := ''logger'',
         EncodeName := Some FullNameEncoder,
         MessageKey := ''message'',
         TimeKey := ''timestamp'',
         EncodeTime := Some RFC3339TimeEncoder,
         LevelKey := ''level'',
         EncodeLevel := Some CapitalColorLevelEncoder,
         CallerKey := ''caller'',
         EncodeCaller := Some ShortCallerEncoder,
         StacktraceKey := ''stacktrace'',
         FunctionKey := OmitKey \<rparr>"

definition productionEncoderConfig :: EncoderConfig where
  "productionEncoderConfig =
     zap_NewProductionEncoderConfig
       \<lparr> NameKey := ''logger'',
         EncodeName := Some FullNameEncoder,
         MessageKey := ''msg'',
         TimeKey := ''ts'',
         EncodeTime := Some RFC3339TimeEncoder,
         LevelKey := ''lv'',
         EncodeLevel := Some CapitalLevelEncoder,
         CallerKey := ''caller'',
         EncodeCaller := Some ShortCallerEncoder,
         StacktraceKey := ''stacktrace'',
         FunctionKey := OmitKey \<rparr>"

definition consoleCore :: "level \<Rightarrow> EncoderConfig \<Rightarrow> Core" where
  "consoleCore minLevel encCfg =
     (let encoder = NewConsoleEncoder encCfg;
          outputCore = NewCore encoder (Some os_Stdout) (infoPriority minLevel);
          errCore = NewCore encoder (Some os_Stderr) (errorPriority minLevel)
      in NewTee [outputCore, errCore])"

text \<open>
  The writer of one path: a lumberjack logger with the file name and
  \<^verbatim>\<open>MaxSize: 1000\<close>; every other field keeps its zero value.
\<close>

definition rotating :: "string \<Rightarrow> WriteSyncer" where
  "rotating path = AddSync \<lparr> Filename = path, MaxSize = 1000, MaxAge = 0, MaxBackups = 0,
                             LocalTime = False, Compress = False \<rparr>"

text \<open>The loop of \<^verbatim>\<open>pathCore\<close>: each path appends its writer to the slice.\<close>

fun append_files :: "string list \<Rightarrow> WriteSyncer option list \<Rightarrow> WriteSyncer option list" where
  "append_files [] files = files"
| "append_files (path # paths) files = append_files paths (files @ [Some (rotating path)])"

text \<open>
  \<^verbatim>\<open>pathCore\<close>. The slice is made by \<^verbatim>\<open>make([]zapcore.WriteSyncer, len(paths))\<close>:
  it starts with \<^verbatim>\<open>len(paths)\<close> nil elements, and the loop appends after them. The
  error returned is always nil.
\<close>

type_synonym error = string

definition pathCore :: "level \<Rightarrow> EncoderConfig \<Rightarrow> string list \<Rightarrow> error + Core" where
  "pathCore level encCfg paths =
     (let encoder = NewJSONEncoder encCfg;
          files = replicate (length paths) None;
          files = append_files paths files;
          writer = NewMultiWriteSyncer files
      in Inr (NewCore encoder writer (Level_Enabled (zapLevel level))))"

definition newLogger :: "string \<Rightarrow> level \<Rightarrow> EncoderConfig \<Rightarrow> string list \<Rightarrow> error + SugaredLogger" where
  "newLogger nm minLevel cfg paths =
     (let cores = [] @ [consoleCore minLevel cfg] in
      if length paths \<noteq> 0 then
        (case pathCore minLevel cfg paths of
           Inl err \<Rightarrow> Inl err
         | Inr fileCore \<Rightarrow> Inr (Sugar (Named (zap_New (NewTee (cores @ [fileCore]))) nm)))
      else Inr (Sugar (Named (zap_New (NewTee cores)) nm)))"

section \<open>Package logger: the facade\<close>

text \<open>
  A \<^verbatim>\<open>Logger\<close> wraps one sugared logger, and each method hands its arguments to
  one method of that logger. \<^verbatim>\<open>GetGlobal\<close> and \<^verbatim>\<open>ReplaceGlobals\<close>, which read and
  replace zap's process-wide logger, take no part in the properties below; a handle
  from \<^verbatim>\<open>GetGlobal\<close> is some value of the record.
\<close>

record Logger =
  logger :: SugaredLogger

definition New :: "string \<Rightarrow> mode \<Rightarrow> level \<Rightarrow> string list \<Rightarrow> error + Logger" where
  "New nm mode minLevel filePaths =
     (case (if mode = Production
            then newLogger nm minLevel productionEncoderConfig filePaths
            else newLogger nm minLevel developmentEncoderConfig filePaths) of
        Inl err \<Rightarrow> Inl err
      | Inr lg \<Rightarrow> Inr \<lparr> logger = lg \<rparr>)"

definition Logger_Panic :: "Logger \<Rightarrow> string list \<Rightarrow> world \<Rightarrow> outcome" where
  "Logger_Panic l args = SugaredLogger_DPanic (logger l) args"
definition Logger_Panicf :: "Logger \<Rightarrow> string \<Rightarrow> string list \<Rightarrow> world \<Rightarrow> outcome" where
  "Logger_Panicf l template args = SugaredLogger_DPanicf (logger l) template args"
definition Logger_Panicln :: "Logger \<Rightarrow> string list \<Rightarrow> world \<Rightarrow> outcome" where
  "Logger_Panicln l args = SugaredLogger_Panicln (logger l) args"

definition Logger_Debug :: "Logger \<Rightarrow> string list \<Rightarrow> world \<Rightarrow> outcome" where
  "Logger_Debug l args = SugaredLogger_Debug (logger l) args"
definition Logger_Debugf :: "Logger \<Rightarrow> string \<Rightarrow> string list \<Rightarrow> world \<Rightarrow> outcome" where
  "Logger_Debugf l template args = SugaredLogger_Debugf (logger l) template args"
definition Logger_Debugln :: "Logger \<Rightarrow> string list \<Rightarrow> world \<Rightarrow> outcome" where
  "Logger_Debugln l args = SugaredLogger_Debugln (logger l) args"

definition Logger_Error :: "Logger \<Rightarrow> string list \<Rightarrow> world \<Rightarrow> outcome" where
  "Logger_Error l args = SugaredLogger_Error (logger l) args"
definition Logger_Errorf :: "Logger \<Rightarrow> string \<Rightarrow> string list \<Rightarrow> world \<Rightarrow> outcome" where
  "Logger_Errorf l template args = SugaredLogger_Errorf (logger l) template args"
definition Logger_Errorln :: "Logger \<Rightarrow> string list \<Rightarrow> world \<Rightarrow> outcome" where
  "Logger_Errorln l args = SugaredLogger_Errorln (logger l) args"

definition Logger_Fatal :: "Logger \<Rightarrow> string list \<Rightarrow> world \<Rightarrow> outcome" where
  "Logger_Fatal l args = SugaredLogger_Fatal (logger l) args"
definition Logger_Fatalf :: "Logger \<Rightarrow> string \<Rightarrow> string list \<Rightarrow> world \<Rightarrow> outcome" where
  "Logger_Fatalf l template args = SugaredLogger_Fatalf (logger l) template args"
definition Logger_Fatalln :: "Logger \<Rightarrow> string list \<Rightarrow> world \<Rightarrow> outcome" where
  "Logger_Fatalln l args = SugaredLogger_Fatalln (logger l) args"

definition Logger_Info :: "Logger \<Rightarrow> string list \<Rightarrow> world \<Rightarrow> outcome" where
  "Logger_Info l args = SugaredLogger_Info (logger l) args"
definition Logger_Infof :: "Logger \<Rightarrow> string \<Rightarrow> string list \<Rightarrow> world \<Rightarrow> outcome" where
  "Logger_Infof l template args = SugaredLogger_Infof (logger l) template args"
definition Logger_Infoln :: "Logger \<Rightarrow> string list \<Rightarrow> world \<Rightarrow> outcome" where
  "Logger_Infoln l args = SugaredLogger_Infoln (logger l) args"

definition Logger_Warn :: "Logger \<Rightarrow> string list \<Rightarrow> world \<Rightarrow> outcome" where
  "Logger_Warn l args = SugaredLogger_Warn (logger l) args"
definition Logger_Warnf :: "Logger \<Rightarrow> string \<Rightarrow> string list \<Rightarrow> world \<Rightarrow> outcome" where
  "Logger_Warnf l template args = SugaredLogger_Warnf (logger l) template args"
definition Logger_Warnln :: "Logger \<Rightarrow> string list \<Rightarrow> world \<Rightarrow> outcome" where
  "Logger_Warnln l args = SugaredLogger_Warnln (logger l) args"

section \<open>Notions used to state the properties\<close>

text \<open>
  Two worlds to run calls in: nothing written yet, both standard streams accept
  writes, and every path can be opened or none can.
\<close>

definition quiet :: world where
  "quiet = \<lparr> stdout = [], stderr = [], disk = (\<lambda>p. []),
             stdout_writable = True, stderr_writable = True, can_open = (\<lambda>p. True) \<rparr>"

definition sealed :: world where
  "sealed = \<lparr> stdout = [], stderr = [], disk = (\<lambda>p. []),
              stdout_writable = True, stderr_writable = True, can_open = (\<lambda>p. False) \<rparr>"

text \<open>Some path of the list cannot be opened or created in the world.\<close>

definition open_fails :: "world \<Rightarrow> string list \<Rightarrow> bool" where
  "open_fails w paths = list_ex (\<lambda>p. \<not> can_open w p) paths"

text \<open>The console rendering of an entry by a logger built for the mode.\<close>

definition console_line :: "mode \<Rightarrow> string \<Rightarrow> zapcore_Level \<Rightarrow> message \<Rightarrow> written" where
  "console_line mode nm lvl msg =
     Encoded (NewConsoleEncoder (if mode = Production then productionEncoderConfig
                                 else developmentEncoderConfig))
       \<lparr> Level = lvl, LoggerName = nm, Message = msg \<rparr>"

text \<open>A call added the line to one console stream and left the other as it was.\<close>

definition on_stdout_only :: "world \<Rightarrow> written \<Rightarrow> outcome \<Rightarrow> bool" where
  "on_stdout_only w e out \<longleftrightarrow>
     stdout (world_of out) = stdout w @ [e] \<and> stderr (world_of out) = stderr w"

definition on_stderr_only :: "world \<Rightarrow> written \<Rightarrow> outcome \<Rightarrow> bool" where
  "on_stderr_only w e out \<longleftrightarrow>
     stderr (world_of out) = stderr w @ [e] \<and> stdout (world_of out) = stdout w"

text \<open>The encoders of the io-cores of a core, in order.\<close>

fun encoders_of :: "Core \<Rightarrow> Encoder list" where
  "encoders_of (ioCore enc out enab) = [enc]"
| "encoders_of (multiCore cs) = concat (map encoders_of cs)"
| "encoders_of nopCore = []"

section \<open>Auxiliary facts\<close>

lemmas level_defs = DebugLevel_def InfoLevel_def WarnLevel_def ErrorLevel_def DPanicLevel_def
  PanicLevel_def FatalLevel_def

lemmas sev_defs = Debug_def Info_def Warn_def Error_def Default_def

subsection \<open>Floors\<close>

lemma zapLevel_cases: "zapLevel m = DebugLevel \<or> zapLevel m = InfoLevel \<or> zapLevel m = ErrorLevel"
  by (simp add: zapLevel_def)

lemma floor_below_DPanic: "\<not> zapLevel m \<le>s lvl \<Longrightarrow> lvl <s DPanicLevel"
  using zapLevel_cases [of m] by (auto simp: level_defs word_sle_eq word_sless_alt)

lemma not_sless_Error: "(\<not> lvl <s ErrorLevel) = (ErrorLevel \<le>s lvl)"
  by (simp add: word_sle_eq word_sless_alt not_less)

lemma floor_le_high:
  "zapLevel m \<le>s ErrorLevel" "zapLevel m \<le>s DPanicLevel"
  "zapLevel m \<le>s PanicLevel" "zapLevel m \<le>s FatalLevel"
  using zapLevel_cases [of m] by (auto simp: level_defs word_sle_eq)

lemma high_not_below_Error:
  "\<not> DPanicLevel <s ErrorLevel" "\<not> PanicLevel <s ErrorLevel" "\<not> FatalLevel <s ErrorLevel"
  "DPanicLevel \<noteq> PanicLevel" "DPanicLevel \<noteq> FatalLevel" "PanicLevel \<noteq> FatalLevel"
  "FatalLevel \<noteq> PanicLevel"
  by (simp_all add: level_defs word_sless_alt)

lemma below_Error:
  "DebugLevel <s ErrorLevel" "InfoLevel <s ErrorLevel" "WarnLevel <s ErrorLevel"
  "\<not> ErrorLevel <s ErrorLevel"
  by (simp_all add: level_defs word_sless_alt)

text \<open>
  A floor that is not below Debug lets through every named severity that is at least
  the floor.
\<close>

lemma floor_named:
  assumes "Debug \<le> m"
  shows "m \<le> Debug \<Longrightarrow> zapLevel m \<le>s DebugLevel"
    and "m \<le> Info \<Longrightarrow> zapLevel m \<le>s InfoLevel"
    and "m \<le> Warn \<Longrightarrow> zapLevel m \<le>s WarnLevel"
    and "m \<le> Error \<Longrightarrow> zapLevel m \<le>s ErrorLevel"
  using assms by (auto simp: zapLevel_def sev_defs level_defs word_sle_eq)

text \<open>The floors of Debug, Info and Error keep out every named severity below them.\<close>

lemma floor_excludes:
  assumes "m = Debug \<or> m = Info \<or> m = Error"
  shows "Debug < m \<Longrightarrow> \<not> zapLevel m \<le>s DebugLevel"
    and "Info < m \<Longrightarrow> \<not> zapLevel m \<le>s InfoLevel"
    and "Warn < m \<Longrightarrow> \<not> zapLevel m \<le>s WarnLevel"
  using assms by (auto simp: zapLevel_def sev_defs level_defs word_sle_eq)

subsection \<open>The cores that the builder makes\<close>

lemma append_files_eq: "append_files paths fs = fs @ map (\<lambda>p. Some (rotating p)) paths"
  by (induction paths arbitrary: fs) simp_all

lemma consoleCore_eq:
  "consoleCore m cfg =
     multiCore [ioCore (NewConsoleEncoder cfg) (Some os_Stdout) (infoPriority m),
                ioCore (NewConsoleEncoder cfg) (Some os_Stderr) (errorPriority m)]"
  by (simp add: consoleCore_def NewTee_def NewCore_def Let_def)

text \<open>The slice handed to the multi-writer: as many nil elements as paths, then the writers.\<close>

lemma pathCore_eq:
  "pathCore m cfg paths =
     Inr (ioCore (NewJSONEncoder cfg)
            (NewMultiWriteSyncer (replicate (length paths) None @ map (\<lambda>p. Some (rotating p)) paths))
            (Level_Enabled (zapLevel m)))"
  by (simp add: pathCore_def append_files_eq NewCore_def)

lemma file_writer_nonempty:
  "paths \<noteq> [] \<Longrightarrow>
   NewMultiWriteSyncer (replicate (length paths) None @ map (\<lambda>p. Some (rotating p)) paths) =
     Some (multiWriteSyncer (replicate (length paths) None @ map (\<lambda>p. Some (rotating p)) paths))"
  by (cases paths) (simp_all add: NewMultiWriteSyncer_def)

lemma nil_first_crashes:
  "paths \<noteq> [] \<Longrightarrow>
   multiWriteSyncer_Write (replicate (length paths) None @ xs) p e w = Crashed w"
  by (cases paths) simp_all

lemma rotating_MaxSize: "rotating path = AddSync lj \<Longrightarrow> MaxSize lj = 1000 \<and> Filename lj = path"
  by (auto simp: rotating_def)

lemma newLogger_eq:
  "newLogger nm m cfg paths =
     Inr (Sugar (Named (zap_New
       (if paths = [] then consoleCore m cfg
        else multiCore [consoleCore m cfg,
               ioCore (NewJSONEncoder cfg)
                 (Some (multiWriteSyncer
                    (replicate (length paths) None @ map (\<lambda>p. Some (rotating p)) paths)))
                 (Level_Enabled (zapLevel m))])) nm))"
  by (simp add: newLogger_def pathCore_eq file_writer_nonempty NewTee_def)

lemma Named_New [simp]:
  "name (Named (zap_New c) nm) = nm"
  "core (Named (zap_New c) nm) = c"
  "development (Named (zap_New c) nm) = False"
  by (simp_all add: Named_def zap_New_def)

lemma console_Enabled:
  "Core_Enabled (consoleCore m cfg) lvl = (zapLevel m \<le>s lvl)"
  by (auto simp: consoleCore_eq infoPriority_def errorPriority_def not_sless_Error)

lemma console_Check:
  "Core_Check (consoleCore m cfg) ent =
     (if zapLevel m \<le>s Level ent
      then (if Level ent <s ErrorLevel then [(NewConsoleEncoder cfg, Some os_Stdout)]
            else [(NewConsoleEncoder cfg, Some os_Stderr)])
      else [])"
  by (auto simp: consoleCore_eq infoPriority_def errorPriority_def not_sless_Error)

lemma newLogger_fields:
  assumes "newLogger nm m cfg paths = Inr s"
  shows "name (base s) = nm" and "development (base s) = False"
    and "Core_Enabled (core (base s)) lvl = (zapLevel m \<le>s lvl)"
    and "Core_Check (core (base s)) ent =
           Core_Check (consoleCore m cfg) ent @
           (if paths \<noteq> [] \<and> zapLevel m \<le>s Level ent
            then [(NewJSONEncoder cfg,
                   Some (multiWriteSyncer
                     (replicate (length paths) None @ map (\<lambda>p. Some (rotating p)) paths)))]
            else [])"
proof -
  from assms have s: "s = Sugar (Named (zap_New
       (if paths = [] then consoleCore m cfg
        else multiCore [consoleCore m cfg,
               ioCore (NewJSONEncoder cfg)
                 (Some (multiWriteSyncer
                    (replicate (length paths) None @ map (\<lambda>p. Some (rotating p)) paths)))
                 (Level_Enabled (zapLevel m))])) nm)"
    by (simp add: newLogger_eq)
  show "name (base s) = nm" by (simp add: s Sugar_def)
  show "development (base s) = False" by (simp add: s Sugar_def)
  show "Core_Enabled (core (base s)) lvl = (zapLevel m \<le>s lvl)"
    by (simp add: s Sugar_def console_Enabled Level_Enabled_def)
  show "Core_Check (core (base s)) ent =
           Core_Check (consoleCore m cfg) ent @
           (if paths \<noteq> [] \<and> zapLevel m \<le>s Level ent
            then [(NewJSONEncoder cfg,
                   Some (multiWriteSyncer
                     (replicate (length paths) None @ map (\<lambda>p. Some (rotating p)) paths)))]
            else [])"
    by (simp add: s Sugar_def Level_Enabled_def)
qed

subsection \<open>One call on a logger made by the builder\<close>

lemma write_console_then_files:
  "CheckedEntry_Write
     ((enc, Some out) #
      (if paths \<noteq> [] then [(jenc, Some (multiWriteSyncer (replicate (length paths) None @ xs)))]
       else [])) ent False w =
   (case WriteSyncer_Write out (Encoded enc ent) w of
      Wrote w' \<Rightarrow> if paths \<noteq> [] then Aborted w' else Completed w'
    | Failed w' \<Rightarrow> if paths \<noteq> [] then Aborted w' else Completed (report_write_error w')
    | Crashed w' \<Rightarrow> Aborted w')"
  by (simp add: nil_first_crashes split: wres.split)

text \<open>
  What a call at any level does on a logger built by \<^verbatim>\<open>newLogger\<close>, in any world:
  below the floor nothing; otherwise the console line is handed to one stream, which
  takes it when it is writable, and then either the file core dereferences its first,
  nil, writer, or a failed console write is reported and the action of the level
  follows.
\<close>

lemma newLogger_log_any:
  assumes "newLogger nm m cfg paths = Inr s"
  shows "SugaredLogger_log s lvl msg w =
     (if zapLevel m \<le>s lvl then
        (let e = Encoded (NewConsoleEncoder cfg) \<lparr> Level = lvl, LoggerName = nm, Message = msg \<rparr>;
             ok = (if lvl <s ErrorLevel then stdout_writable w else stderr_writable w);
             w1 = (if \<not> ok then w
                   else if lvl <s ErrorLevel then w\<lparr>stdout := stdout w @ [e]\<rparr>
                   else w\<lparr>stderr := stderr w @ [e]\<rparr>);
             w2 = (if ok then w1 else report_write_error w1)
         in if paths \<noteq> [] then Panics nil_dereference w1
            else if lvl = PanicLevel then Panics (log_panic msg) w2
            else if lvl = FatalLevel then Exits 1 w2
            else Returns w2)
      else Returns w)"
proof (cases "zapLevel m \<le>s lvl")
  case False
  then show ?thesis
    by (simp add: SugaredLogger_log_def newLogger_fields [OF assms] floor_below_DPanic)
next
  case floor: True
  show ?thesis
  proof (cases "lvl <s ErrorLevel")
    case True
    then have "lvl \<noteq> PanicLevel" "lvl \<noteq> FatalLevel" "lvl \<noteq> DPanicLevel"
      by (auto simp: level_defs word_sless_alt)
    with True floor show ?thesis
      using write_console_then_files [of "NewConsoleEncoder cfg" os_Stdout paths "NewJSONEncoder cfg"]
      by (simp add: SugaredLogger_log_def newLogger_fields [OF assms] console_Check
          check_after_def Let_def)
  next
    case False
    with floor show ?thesis
      using write_console_then_files [of "NewConsoleEncoder cfg" os_Stderr paths "NewJSONEncoder cfg"]
      by (simp add: SugaredLogger_log_def newLogger_fields [OF assms] console_Check
          check_after_def Let_def)
  qed
qed

lemma New_newLogger:
  "New nm mode m paths =
     (case newLogger nm m (if mode = Production then productionEncoderConfig
                           else developmentEncoderConfig) paths of
        Inl err \<Rightarrow> Inl err | Inr lg \<Rightarrow> Inr \<lparr> logger = lg \<rparr>)"
  by (simp add: New_def)

lemma New_Inr:
  "\<exists>s. newLogger nm m (if mode = Production then productionEncoderConfig
                        else developmentEncoderConfig) paths = Inr s \<and>
       New nm mode m paths = Inr \<lparr> logger = s \<rparr>"
  by (simp add: New_newLogger newLogger_eq)

lemma New_log_any:
  assumes "New nm mode m paths = Inr l"
  shows "SugaredLogger_log (logger l) lvl msg w =
     (if zapLevel m \<le>s lvl then
        (let e = console_line mode nm lvl msg;
             ok = (if lvl <s ErrorLevel then stdout_writable w else stderr_writable w);
             w1 = (if \<not> ok then w
                   else if lvl <s ErrorLevel then w\<lparr>stdout := stdout w @ [e]\<rparr>
                   else w\<lparr>stderr := stderr w @ [e]\<rparr>);
             w2 = (if ok then w1 else report_write_error w1)
         in if paths \<noteq> [] then Panics nil_dereference w1
            else if lvl = PanicLevel then Panics (log_panic msg) w2
            else if lvl = FatalLevel then Exits 1 w2
            else Returns w2)
      else Returns w)"
proof -
  obtain s where s: "newLogger nm m (if mode = Production then productionEncoderConfig
                        else developmentEncoderConfig) paths = Inr s"
    and "New nm mode m paths = Inr \<lparr> logger = s \<rparr>"
    using New_Inr by blast
  with assms have "logger l = s" by auto
  then show ?thesis using newLogger_log_any [OF s] by (simp add: console_line_def)
qed

text \<open>The same in a world whose standard streams accept writes.\<close>

lemma New_log:
  assumes "New nm mode m paths = Inr l" and "stdout_writable w" and "stderr_writable w"
  shows "SugaredLogger_log (logger l) lvl msg w =
     (if zapLevel m \<le>s lvl then
        (let e = console_line mode nm lvl msg;
             w1 = (if lvl <s ErrorLevel then w\<lparr>stdout := stdout w @ [e]\<rparr>
                   else w\<lparr>stderr := stderr w @ [e]\<rparr>)
         in if paths \<noteq> [] then Panics nil_dereference w1
            else if lvl = PanicLevel then Panics (log_panic msg) w1
            else if lvl = FatalLevel then Exits 1 w1
            else Returns w1)
      else Returns w)"
  using assms(2,3) by (simp add: New_log_any [OF assms(1)] Let_def)

lemma quiet_writable [simp]: "stdout_writable quiet" "stderr_writable quiet"
  by (simp_all add: quiet_def)

text \<open>Below the floor a call writes nothing and returns, in any world.\<close>

lemma New_silent_below_floor:
  assumes "New nm mode m paths = Inr l" and "\<not> zapLevel m \<le>s lvl"
  shows "SugaredLogger_log (logger l) lvl msg w = Returns w"
  using assms(2) by (simp add: New_log_any [OF assms(1)])

text \<open>
  A standard stream that does not accept the write does not receive the line: on a
  logger without file paths the failure is reported on standard error, when that
  stream is writable, and the call goes on.
\<close>

lemma New_stdout_unwritable:
  assumes "New nm mode m [] = Inr l" and "zapLevel m \<le>s lvl" and "lvl <s ErrorLevel"
    and "\<not> stdout_writable w"
  shows "SugaredLogger_log (logger l) lvl msg w = Returns (report_write_error w)"
proof -
  from assms(3) have "lvl \<noteq> PanicLevel" "lvl \<noteq> FatalLevel"
    by (auto simp: level_defs word_sless_alt)
  with assms(2-4) show ?thesis
    by (simp add: New_log_any [OF assms(1)] Let_def)
qed

lemma New_console:
  assumes "New nm mode m paths = Inr l" and "zapLevel m \<le>s lvl"
    and "stdout_writable w" and "stderr_writable w"
  shows "lvl <s ErrorLevel \<Longrightarrow>
           on_stdout_only w (console_line mode nm lvl msg) (SugaredLogger_log (logger l) lvl msg w)"
    and "\<not> lvl <s ErrorLevel \<Longrightarrow>
           on_stderr_only w (console_line mode nm lvl msg) (SugaredLogger_log (logger l) lvl msg w)"
  using assms(2)
  by (simp_all add: New_log [OF assms(1,3,4)] on_stdout_only_def on_stderr_only_def Let_def)

text \<open>
  The Panic and Fatal families on a logger built by \<^verbatim>\<open>New\<close>, where standard error
  accepts writes. Without file paths Panic and Panicf return after writing
  (\<^verbatim>\<open>New\<close> never puts the logger in development), Panicln panics and the Fatal
  family exits with status 1. With file paths each of them ends in the nil dereference
  of the file core.
\<close>

lemma New_Panic:
  assumes "New nm mode m paths = Inr l" and "stderr_writable w"
  shows "Logger_Panic l args w =
     (let w1 = w\<lparr>stderr := stderr w @ [console_line mode nm DPanicLevel (Sprint args)]\<rparr>
      in if paths \<noteq> [] then Panics nil_dereference w1 else Returns w1)"
    and "Logger_Panicf l template args w =
     (let w1 = w\<lparr>stderr := stderr w @ [console_line mode nm DPanicLevel (Sprintf template args)]\<rparr>
      in if paths \<noteq> [] then Panics nil_dereference w1 else Returns w1)"
    and "Logger_Panicln l args w =
     (let w1 = w\<lparr>stderr := stderr w @ [console_line mode nm PanicLevel (Sprintln args)]\<rparr>
      in if paths \<noteq> [] then Panics nil_dereference w1
         else Panics (log_panic (Sprintln args)) w1)"
  using assms(2)
  by (simp_all add: Logger_Panic_def Logger_Panicf_def Logger_Panicln_def
      SugaredLogger_DPanic_def SugaredLogger_DPanicf_def SugaredLogger_Panicln_def
      New_log_any [OF assms(1)] floor_le_high high_not_below_Error Let_def)

lemma New_Fatal:
  assumes "New nm mode m paths = Inr l" and "stderr_writable w"
  shows "Logger_Fatal l args w =
     (let w1 = w\<lparr>stderr := stderr w @ [console_line mode nm FatalLevel (Sprint args)]\<rparr>
      in if paths \<noteq> [] then Panics nil_dereference w1 else Exits 1 w1)"
    and "Logger_Fatalf l template args w =
     (let w1 = w\<lparr>stderr := stderr w @ [console_line mode nm FatalLevel (Sprintf template args)]\<rparr>
      in if paths \<noteq> [] then Panics nil_dereference w1 else Exits 1 w1)"
    and "Logger_Fatalln l args w =
     (let w1 = w\<lparr>stderr := stderr w @ [console_line mode nm FatalLevel (Sprintln args)]\<rparr>
      in if paths \<noteq> [] then Panics nil_dereference w1 else Exits 1 w1)"
  using assms(2)
  by (simp_all add: Logger_Fatal_def Logger_Fatalf_def Logger_Fatalln_def
      SugaredLogger_Fatal_def SugaredLogger_Fatalf_def SugaredLogger_Fatalln_def
      New_log_any [OF assms(1)] floor_le_high high_not_below_Error Let_def)

lemma encoders_of_New:
  "\<exists>l. New nm mode minLevel filePaths = Inr l \<and>
     encoders_of (core (base (logger l))) =
       (if mode = Production
        then [NewConsoleEncoder productionEncoderConfig, NewConsoleEncoder productionEncoderConfig] @
             (if filePaths = [] then [] else [NewJSONEncoder productionEncoderConfig])
        else [NewConsoleEncoder developmentEncoderConfig, NewConsoleEncoder developmentEncoderConfig] @
             (if filePaths = [] then [] else [NewJSONEncoder developmentEncoderConfig]))"
  by (simp add: New_newLogger newLogger_eq Sugar_def consoleCore_eq)

section \<open>The properties\<close>

subsection \<open>Severity floor\<close>

text \<open>
  Claim C1: for every configured minimum severity and every call at a severity below
  it, no sink receives output. The code does not keep this for the minimum Warn:
  \<^verbatim>\<open>zapLevel\<close> has no case for Warn, so the floor of a logger configured with Warn
  is the Info level, and a call of \<^verbatim>\<open>Info\<close>, which is below Warn, is written to
  standard output. The logger here is \<^verbatim>\<open>New("svc", Production, Warn)\<close>.
\<close>

theorem C1_info_written_under_warn_floor:
  "Info < Warn \<and>
   (\<exists>l. New ''svc'' Production Warn [] = Inr l \<and>
        Logger_Info l [''started''] quiet =
          Returns (quiet\<lparr>stdout :=
            [console_line Production ''svc'' InfoLevel (Sprint [''started''])]\<rparr>))"
proof -
  obtain l where l: "New ''svc'' Production Warn [] = Inr l"
    using New_Inr [of "''svc''" Warn Production "[]"] by blast
  have "zapLevel Warn = InfoLevel" by (simp add: zapLevel_def sev_defs)
  then have "Logger_Info l [''started''] quiet =
          Returns (quiet\<lparr>stdout :=
            [console_line Production ''svc'' InfoLevel (Sprint [''started''])]\<rparr>)"
    by (simp add: Logger_Info_def SugaredLogger_Info_def New_log [OF l] level_defs
        word_sle_eq word_sless_alt quiet_def)
  with l show ?thesis by (simp add: sev_defs)
qed

subsection \<open>File destinations\<close>

text \<open>
  Claim C2: with n file paths, the writer of the file core writes each accepted event
  to exactly the n listed files. The code does not: the slice of writers is made with
  length n and the n file writers are appended after its n nil elements, so the
  multi-writer holds 2n entries and its first entry is nil. The first accepted event
  makes the file core call \<^verbatim>\<open>Write\<close> on that nil entry: the call panics after the
  console line and no file receives anything. The logger here is
  \<^verbatim>\<open>New("svc", Production, Info, "/tmp/log.json")\<close>.
\<close>

theorem C2_nil_writers_before_files:
  "pathCore Info productionEncoderConfig [''/tmp/log.json''] =
     Inr (ioCore (NewJSONEncoder productionEncoderConfig)
            (Some (multiWriteSyncer [None, Some (rotating ''/tmp/log.json'')]))
            (Level_Enabled InfoLevel)) \<and>
   (\<exists>l. New ''svc'' Production Info [''/tmp/log.json''] = Inr l \<and>
        Logger_Info l [''started''] quiet =
          Panics nil_dereference
            (quiet\<lparr>stdout := [console_line Production ''svc'' InfoLevel (Sprint [''started''])]\<rparr>) \<and>
        disk (world_of (Logger_Info l [''started''] quiet)) ''/tmp/log.json'' = [])"
proof -
  have zl: "zapLevel Info = InfoLevel" by (simp add: zapLevel_def sev_defs)
  have pc: "pathCore Info productionEncoderConfig [''/tmp/log.json''] =
     Inr (ioCore (NewJSONEncoder productionEncoderConfig)
            (Some (multiWriteSyncer [None, Some (rotating ''/tmp/log.json'')]))
            (Level_Enabled InfoLevel))"
    by (simp add: pathCore_eq NewMultiWriteSyncer_def zl)
  obtain l where l: "New ''svc'' Production Info [''/tmp/log.json''] = Inr l"
    using New_Inr [of "''svc''" Info Production "[''/tmp/log.json'']"] by blast
  have run: "Logger_Info l [''started''] quiet =
          Panics nil_dereference
            (quiet\<lparr>stdout := [console_line Production ''svc'' InfoLevel (Sprint [''started''])]\<rparr>)"
    by (simp add: Logger_Info_def SugaredLogger_Info_def New_log [OF l] zl level_defs
        word_sle_eq word_sless_alt quiet_def)
  have "disk (world_of (Logger_Info l [''started''] quiet)) ''/tmp/log.json'' = []"
    by (simp add: run) (simp add: quiet_def)
  with pc l run show ?thesis by blast
qed

text \<open>
  Claim C6: a file core is added exactly when a path is supplied; it uses a JSON
  encoder in both modes, accepts exactly the severities from the minimum upward, and
  writes through a rotating writer with size threshold 1000. The code does not keep the
  third part for the minimum Warn: the file core's enabler is the level
  \<^verbatim>\<open>zapLevel(Warn)\<close>, which is Info, so the file core takes an Info entry although
  Info is below Warn. The writer it would use starts with a nil entry, as in C2.
\<close>

theorem C6_file_core_under_warn_floor:
  "Info < Warn \<and>
   (\<exists>fileCore. pathCore Warn productionEncoderConfig [''/tmp/log.json''] = Inr fileCore \<and>
      Core_Enabled fileCore InfoLevel \<and>
      Core_Check fileCore \<lparr> Level = InfoLevel, LoggerName = ''svc'', Message = Sprint [''started''] \<rparr> =
        [(NewJSONEncoder productionEncoderConfig,
          Some (multiWriteSyncer [None, Some (rotating ''/tmp/log.json'')]))])"
  by (simp add: pathCore_eq NewMultiWriteSyncer_def zapLevel_def sev_defs Level_Enabled_def
      level_defs word_sle_eq)

subsection \<open>Construction errors\<close>

text \<open>
  Claim C3, as amended: \<^verbatim>\<open>New\<close> never returns an error, whatever the name, mode,
  minimum severity and file paths. \<^verbatim>\<open>pathCore\<close> always returns a nil error and
  only builds the rotating writers; no file is opened or created during construction.
\<close>

theorem C3_New_returns_no_error:
  "\<exists>l. New nm mode minLevel filePaths = Inr l"
  using New_Inr [of nm minLevel mode filePaths] by blast

text \<open>
  Claim C3 as stated says that \<^verbatim>\<open>New\<close> returns an error exactly when a writer for
  one of the paths cannot be opened or created. In a world where no path can be opened,
  \<^verbatim>\<open>New("svc", Production, Info, "/root/denied.log")\<close> still returns a logger.
\<close>

theorem C3_counterexample:
  "\<not> (isl (New ''svc'' Production Info [''/root/denied.log'']) \<longleftrightarrow>
       open_fails sealed [''/root/denied.log''])"
proof -
  obtain l where "New ''svc'' Production Info [''/root/denied.log''] = Inr l"
    using New_Inr [of "''svc''" Info Production "[''/root/denied.log'']"] by blast
  then show ?thesis by (simp add: open_fails_def sealed_def)
qed

subsection \<open>Console bands\<close>

text \<open>
  What the console core does for the calls the floor lets through, in a world whose
  standard streams accept writes: with a minimum that is not below Debug, a Debug, Info
  or Warn call at a severity that is at least the minimum appears on standard output
  only, an Error call on standard error only, as do the calls of the Panic and Fatal
  families. The console line is written before the file core is reached, so this holds
  with and without file paths.
\<close>

lemma console_bands_at_or_above_minimum:
  assumes "Debug \<le> m" and "stdout_writable w" and "stderr_writable w"
  shows "\<exists>l. New nm mode m paths = Inr l \<and>
     (core (base (logger l)) = consoleCore m (if mode = Production then productionEncoderConfig
                                              else developmentEncoderConfig) \<or>
      (\<exists>fileCore. core (base (logger l)) =
         multiCore [consoleCore m (if mode = Production then productionEncoderConfig
                                   else developmentEncoderConfig), fileCore])) \<and>
     (m \<le> Debug \<longrightarrow>
        on_stdout_only w (console_line mode nm DebugLevel (Sprint args)) (Logger_Debug l args w) \<and>
        on_stdout_only w (console_line mode nm DebugLevel (Sprintf template args))
          (Logger_Debugf l template args w) \<and>
        on_stdout_only w (console_line mode nm DebugLevel (Sprintln args)) (Logger_Debugln l args w)) \<and>
     (m \<le> Info \<longrightarrow>
        on_stdout_only w (console_line mode nm InfoLevel (Sprint args)) (Logger_Info l args w) \<and>
        on_stdout_only w (console_line mode nm InfoLevel (Sprintf template args))
          (Logger_Infof l template args w) \<and>
        on_stdout_only w (console_line mode nm InfoLevel (Sprintln args)) (Logger_Infoln l args w)) \<and>
     (m \<le> Warn \<longrightarrow>
        on_stdout_only w (console_line mode nm WarnLevel (Sprint args)) (Logger_Warn l args w) \<and>
        on_stdout_only w (console_line mode nm WarnLevel (Sprintf template args))
          (Logger_Warnf l template args w) \<and>
        on_stdout_only w (console_line mode nm WarnLevel (Sprintln args)) (Logger_Warnln l args w)) \<and>
     (m \<le> Error \<longrightarrow>
        on_stderr_only w (console_line mode nm ErrorLevel (Sprint args)) (Logger_Error l args w) \<and>
        on_stderr_only w (console_line mode nm ErrorLevel (Sprintf template args))
          (Logger_Errorf l template args w) \<and>
        on_stderr_only w (console_line mode nm ErrorLevel (Sprintln args)) (Logger_Errorln l args w)) \<and>
     on_stderr_only w (console_line mode nm DPanicLevel (Sprint args)) (Logger_Panic l args w) \<and>
     on_stderr_only w (console_line mode nm DPanicLevel (Sprintf template args))
       (Logger_Panicf l template args w) \<and>
     on_stderr_only w (console_line mode nm PanicLevel (Sprintln args)) (Logger_Panicln l args w) \<and>
     on_stderr_only w (console_line mode nm FatalLevel (Sprint args)) (Logger_Fatal l args w) \<and>
     on_stderr_only w (console_line mode nm FatalLevel (Sprintf template args))
       (Logger_Fatalf l template args w) \<and>
     on_stderr_only w (console_line mode nm FatalLevel (Sprintln args)) (Logger_Fatalln l args w)"
proof -
  obtain s where s: "newLogger nm m (if mode = Production then productionEncoderConfig
                        else developmentEncoderConfig) paths = Inr s"
    and l: "New nm mode m paths = Inr \<lparr> logger = s \<rparr>"
    using New_Inr by blast
  let ?l = "\<lparr> logger = s \<rparr>"
  note console = New_console [OF l _ assms(2,3)]
  have shape: "core (base (logger ?l)) = consoleCore m (if mode = Production then productionEncoderConfig
                                              else developmentEncoderConfig) \<or>
      (\<exists>fileCore. core (base (logger ?l)) =
         multiCore [consoleCore m (if mode = Production then productionEncoderConfig
                                   else developmentEncoderConfig), fileCore])"
    using s by (cases "paths = []") (auto simp: newLogger_eq Sugar_def)
  have dbg: "m \<le> Debug \<longrightarrow>
        on_stdout_only w (console_line mode nm DebugLevel (Sprint args)) (Logger_Debug ?l args w) \<and>
        on_stdout_only w (console_line mode nm DebugLevel (Sprintf template args))
          (Logger_Debugf ?l template args w) \<and>
        on_stdout_only w (console_line mode nm DebugLevel (Sprintln args)) (Logger_Debugln ?l args w)"
    unfolding Logger_Debug_def Logger_Debugf_def Logger_Debugln_def
      SugaredLogger_Debug_def SugaredLogger_Debugf_def SugaredLogger_Debugln_def
    using console(1) [OF floor_named(1) [OF assms(1)] below_Error(1)] by blast
  have inf: "m \<le> Info \<longrightarrow>
        on_stdout_only w (console_line mode nm InfoLevel (Sprint args)) (Logger_Info ?l args w) \<and>
        on_stdout_only w (console_line mode nm InfoLevel (Sprintf template args))
          (Logger_Infof ?l template args w) \<and>
        on_stdout_only w (console_line mode nm InfoLevel (Sprintln args)) (Logger_Infoln ?l args w)"
    unfolding Logger_Info_def Logger_Infof_def Logger_Infoln_def
      SugaredLogger_Info_def SugaredLogger_Infof_def SugaredLogger_Infoln_def
    using console(1) [OF floor_named(2) [OF assms(1)] below_Error(2)] by blast
  have wrn: "m \<le> Warn \<longrightarrow>
        on_stdout_only w (console_line mode nm WarnLevel (Sprint args)) (Logger_Warn ?l args w) \<and>
        on_stdout_only w (console_line mode nm WarnLevel (Sprintf template args))
          (Logger_Warnf ?l template args w) \<and>
        on_stdout_only w (console_line mode nm WarnLevel (Sprintln args)) (Logger_Warnln ?l args w)"
    unfolding Logger_Warn_def Logger_Warnf_def Logger_Warnln_def
      SugaredLogger_Warn_def SugaredLogger_Warnf_def SugaredLogger_Warnln_def
    using console(1) [OF floor_named(3) [OF assms(1)] below_Error(3)] by blast
  have err: "m \<le> Error \<longrightarrow>
        on_stderr_only w (console_line mode nm ErrorLevel (Sprint args)) (Logger_Error ?l args w) \<and>
        on_stderr_only w (console_line mode nm ErrorLevel (Sprintf template args))
          (Logger_Errorf ?l template args w) \<and>
        on_stderr_only w (console_line mode nm ErrorLevel (Sprintln args)) (Logger_Errorln ?l args w)"
    unfolding Logger_Error_def Logger_Errorf_def Logger_Errorln_def
      SugaredLogger_Error_def SugaredLogger_Errorf_def SugaredLogger_Errorln_def
    using console(2) [OF floor_named(4) [OF assms(1)] below_Error(4)] by blast
  have high: "on_stderr_only w (console_line mode nm DPanicLevel (Sprint args)) (Logger_Panic ?l args w) \<and>
     on_stderr_only w (console_line mode nm DPanicLevel (Sprintf template args))
       (Logger_Panicf ?l template args w) \<and>
     on_stderr_only w (console_line mode nm PanicLevel (Sprintln args)) (Logger_Panicln ?l args w) \<and>
     on_stderr_only w (console_line mode nm FatalLevel (Sprint args)) (Logger_Fatal ?l args w) \<and>
     on_stderr_only w (console_line mode nm FatalLevel (Sprintf template args))
       (Logger_Fatalf ?l template args w) \<and>
     on_stderr_only w (console_line mode nm FatalLevel (Sprintln args)) (Logger_Fatalln ?l args w)"
    by (simp add: New_Panic [OF l assms(3)] New_Fatal [OF l assms(3)] on_stderr_only_def Let_def)
  from l shape dbg inf wrn err high show ?thesis by blast
qed

text \<open>
  The two bands of the console core, for any minimum: standard output takes exactly
  the levels from \<^verbatim>\<open>zapLevel\<close> of the minimum up to, not including, Error, and
  standard error exactly the levels from Error up that are at least that floor.
\<close>

lemma console_bands_exact:
  "consoleCore m cfg =
     multiCore [ioCore (NewConsoleEncoder cfg) (Some os_Stdout) (infoPriority m),
                ioCore (NewConsoleEncoder cfg) (Some os_Stderr) (errorPriority m)] \<and>
   infoPriority m lv = (zapLevel m \<le>s lv \<and> lv <s ErrorLevel) \<and>
   errorPriority m lv = (ErrorLevel \<le>s lv)"
proof -
  have "errorPriority m lv = (ErrorLevel \<le>s lv)"
    using zapLevel_cases [of m]
    by (auto simp: errorPriority_def level_defs word_sle_eq)
  then show ?thesis by (simp add: consoleCore_eq infoPriority_def)
qed

text \<open>
  Claim C4: every composite sink built by \<^verbatim>\<open>New\<close> contains the console core, whose
  two bands share the configured minimum as their floor: severities from the minimum
  up to Error go to standard output, severities from Error up to standard error. The
  console core is always there and the bands are disjoint, but the code does not keep
  the floor for the minimum Warn: the floor of both bands is \<^verbatim>\<open>zapLevel(Warn)\<close>,
  the Info level, so the standard-output band of \<^verbatim>\<open>New("svc", Production, Warn)\<close>
  is Info up to Error, not Warn up to Error. It refuses a Debug entry, takes an Info
  entry, and a call of \<^verbatim>\<open>Infoln\<close> is written to standard output.
\<close>

theorem C4_stdout_band_under_warn_floor:
  "Info < Warn \<and>
   consoleCore Warn productionEncoderConfig =
     multiCore [ioCore (NewConsoleEncoder productionEncoderConfig) (Some os_Stdout) (infoPriority Warn),
                ioCore (NewConsoleEncoder productionEncoderConfig) (Some os_Stderr) (errorPriority Warn)] \<and>
   infoPriority Warn InfoLevel \<and> \<not> infoPriority Warn DebugLevel \<and>
   \<not> errorPriority Warn InfoLevel \<and>
   Core_Check (consoleCore Warn productionEncoderConfig)
       \<lparr> Level = InfoLevel, LoggerName = ''svc'', Message = Sprintln [''started''] \<rparr> =
     [(NewConsoleEncoder productionEncoderConfig, Some os_Stdout)] \<and>
   (\<exists>l. New ''svc'' Production Warn [] = Inr l \<and>
        core (base (logger l)) = consoleCore Warn productionEncoderConfig \<and>
        on_stdout_only quiet (console_line Production ''svc'' InfoLevel (Sprintln [''started'']))
          (Logger_Infoln l [''started''] quiet))"
proof -
  have zl: "zapLevel Warn = InfoLevel" by (simp add: zapLevel_def sev_defs)
  have bands: "infoPriority Warn InfoLevel \<and> \<not> infoPriority Warn DebugLevel \<and>
     \<not> errorPriority Warn InfoLevel"
    by (simp add: infoPriority_def errorPriority_def zl level_defs word_sle_eq word_sless_alt)
  have chk: "Core_Check (consoleCore Warn productionEncoderConfig)
       \<lparr> Level = InfoLevel, LoggerName = ''svc'', Message = Sprintln [''started''] \<rparr> =
     [(NewConsoleEncoder productionEncoderConfig, Some os_Stdout)]"
    by (simp add: console_Check zl level_defs word_sle_eq word_sless_alt)
  obtain s where s: "newLogger ''svc'' Warn (if Production = Production then productionEncoderConfig
                        else developmentEncoderConfig) [] = Inr s"
    and l: "New ''svc'' Production Warn [] = Inr \<lparr> logger = s \<rparr>"
    using New_Inr [of "''svc''" Warn Production "[]"] by blast
  have shape: "core (base (logger \<lparr> logger = s \<rparr>)) = consoleCore Warn productionEncoderConfig"
    using s by (auto simp: newLogger_eq Sugar_def)
  have "zapLevel Warn \<le>s InfoLevel" by (simp add: zl level_defs word_sle_eq)
  then have run: "on_stdout_only quiet (console_line Production ''svc'' InfoLevel (Sprintln [''started'']))
          (Logger_Infoln \<lparr> logger = s \<rparr> [''started''] quiet)"
    unfolding Logger_Infoln_def SugaredLogger_Infoln_def
    using New_console(1) [OF l _ quiet_writable below_Error(2)] by blast
  from bands chk l shape run show ?thesis
    by (simp add: sev_defs consoleCore_eq)
qed

subsection \<open>Severity mapping\<close>

text \<open>
  Claim C5: \<^verbatim>\<open>zapLevel\<close> maps Debug to the debug priority, Error to the error
  priority and every other severity, Info and Warn among them, to the info priority.
  So a floor of Warn is the floor of Info: the two build the same predicates and the
  same logger. And under any floor, every sink takes a Warn entry exactly when it takes
  an Info entry.
\<close>

theorem C5_zapLevel_mapping:
  "zapLevel Debug = DebugLevel \<and> zapLevel Error = ErrorLevel \<and>
   zapLevel Info = InfoLevel \<and> zapLevel Warn = InfoLevel \<and>
   (m \<noteq> Debug \<and> m \<noteq> Error \<longrightarrow> zapLevel m = InfoLevel) \<and>
   infoPriority Warn = infoPriority Info \<and> errorPriority Warn = errorPriority Info \<and>
   New nm mode Warn paths = New nm mode Info paths \<and>
   infoPriority m WarnLevel = infoPriority m InfoLevel \<and>
   errorPriority m WarnLevel = errorPriority m InfoLevel \<and>
   Level_Enabled (zapLevel m) WarnLevel = Level_Enabled (zapLevel m) InfoLevel"
proof -
  have z: "zapLevel Warn = zapLevel Info" by (simp add: zapLevel_def sev_defs)
  have a: "zapLevel Debug = DebugLevel \<and> zapLevel Error = ErrorLevel \<and>
   zapLevel Info = InfoLevel \<and> zapLevel Warn = InfoLevel \<and>
   (m \<noteq> Debug \<and> m \<noteq> Error \<longrightarrow> zapLevel m = InfoLevel)"
    by (simp add: zapLevel_def sev_defs)
  have b: "infoPriority Warn = infoPriority Info \<and> errorPriority Warn = errorPriority Info"
    by (simp add: infoPriority_def errorPriority_def z)
  have "consoleCore Warn cfg = consoleCore Info cfg" for cfg
    by (simp add: consoleCore_def b)
  then have "newLogger nm Warn cfg paths = newLogger nm Info cfg paths" for cfg
    by (simp add: newLogger_eq z)
  then have c: "New nm mode Warn paths = New nm mode Info paths"
    by (simp add: New_def)
  have d: "infoPriority m WarnLevel = infoPriority m InfoLevel \<and>
   errorPriority m WarnLevel = errorPriority m InfoLevel \<and>
   Level_Enabled (zapLevel m) WarnLevel = Level_Enabled (zapLevel m) InfoLevel"
    using zapLevel_cases [of m]
    by (auto simp: infoPriority_def errorPriority_def Level_Enabled_def level_defs
        word_sle_eq word_sless_alt)
  from a b c d show ?thesis by blast
qed

text \<open>The mapping at Warn and at 7, a value outside the named severities.\<close>

theorem C5_zapLevel_mapping_witness:
  "Warn \<noteq> Debug \<and> Warn \<noteq> Error \<and> zapLevel Warn = InfoLevel \<and>
   (7::int) \<noteq> Debug \<and> (7::int) \<noteq> Error \<and> zapLevel 7 = InfoLevel"
  using C5_zapLevel_mapping [of Warn] C5_zapLevel_mapping [of 7] by (simp add: sev_defs)

subsection \<open>Encoder configuration\<close>

text \<open>
  Claim C7: the encoder configuration follows the mode. Every core of a logger built
  with Production uses the production configuration, every core of a logger built with
  another mode the development one. Development encodes the level in capitals with
  colour and names the message "message"; production encodes it in plain capitals and
  names the message "msg". Both encode time as RFC3339 and the caller in short form,
  and both omit the function name.
\<close>

theorem C7_encoder_configuration:
  "(\<exists>l. New nm mode minLevel filePaths = Inr l \<and>
     encoders_of (core (base (logger l))) =
       (if mode = Production
        then [NewConsoleEncoder productionEncoderConfig, NewConsoleEncoder productionEncoderConfig] @
             (if filePaths = [] then [] else [NewJSONEncoder productionEncoderConfig])
        else [NewConsoleEncoder developmentEncoderConfig, NewConsoleEncoder developmentEncoderConfig] @
             (if filePaths = [] then [] else [NewJSONEncoder developmentEncoderConfig]))) \<and>
   EncodeLevel developmentEncoderConfig = Some CapitalColorLevelEncoder \<and>
   MessageKey developmentEncoderConfig = ''message'' \<and>
   EncodeLevel productionEncoderConfig = Some CapitalLevelEncoder \<and>
   MessageKey productionEncoderConfig = ''msg'' \<and>
   EncodeTime developmentEncoderConfig = Some RFC3339TimeEncoder \<and>
   EncodeTime productionEncoderConfig = Some RFC3339TimeEncoder \<and>
   EncodeCaller developmentEncoderConfig = Some ShortCallerEncoder \<and>
   EncodeCaller productionEncoderConfig = Some ShortCallerEncoder \<and>
   FunctionKey developmentEncoderConfig = OmitKey \<and>
   FunctionKey productionEncoderConfig = OmitKey \<and>
   OmitKey = []"
proof -
  have "EncodeLevel developmentEncoderConfig = Some CapitalColorLevelEncoder \<and>
   MessageKey developmentEncoderConfig = ''message'' \<and>
   EncodeTime developmentEncoderConfig = Some RFC3339TimeEncoder \<and>
   EncodeCaller developmentEncoderConfig = Some ShortCallerEncoder \<and>
   FunctionKey developmentEncoderConfig = OmitKey"
    by (simp add: developmentEncoderConfig_def)
  moreover have "EncodeLevel productionEncoderConfig = Some CapitalLevelEncoder \<and>
   MessageKey productionEncoderConfig = ''msg'' \<and>
   EncodeTime productionEncoderConfig = Some RFC3339TimeEncoder \<and>
   EncodeCaller productionEncoderConfig = Some ShortCallerEncoder \<and>
   FunctionKey productionEncoderConfig = OmitKey"
    by (simp add: productionEncoderConfig_def)
  moreover have "OmitKey = []" by (simp add: OmitKey_def)
  ultimately show ?thesis using encoders_of_New [of nm mode minLevel filePaths] by blast
qed

subsection \<open>Panic and Fatal\<close>

text \<open>
  Claim C8: \<^verbatim>\<open>Panic\<close> and \<^verbatim>\<open>Panicf\<close> write at the DPanic severity, which aborts
  only in development, and \<^verbatim>\<open>Panicln\<close> panics after writing the event. The facade
  delegates as the claim says, but on a logger built with a file path the calls do not
  behave so: the logger is not in development, yet \<^verbatim>\<open>Panic\<close> and \<^verbatim>\<open>Panicf\<close>
  end in a runtime panic, and \<^verbatim>\<open>Panicln\<close> panics before the file has the event,
  because the file core dereferences the nil writer of C2.
\<close>

theorem C8_panic_with_file_path:
  "\<exists>l. New ''svc'' Production Info [''/tmp/log.json''] = Inr l \<and>
      development (base (logger l)) = False \<and>
      Logger_Panic l [''boom''] quiet =
        Panics nil_dereference
          (quiet\<lparr>stderr := [console_line Production ''svc'' DPanicLevel (Sprint [''boom''])]\<rparr>) \<and>
      Logger_Panicf l ''%s'' [''boom''] quiet =
        Panics nil_dereference
          (quiet\<lparr>stderr := [console_line Production ''svc'' DPanicLevel (Sprintf ''%s'' [''boom''])]\<rparr>) \<and>
      Logger_Panicln l [''boom''] quiet =
        Panics nil_dereference
          (quiet\<lparr>stderr := [console_line Production ''svc'' PanicLevel (Sprintln [''boom''])]\<rparr>) \<and>
      disk (world_of (Logger_Panicln l [''boom''] quiet)) ''/tmp/log.json'' = []"
proof -
  obtain s where s: "newLogger ''svc'' Info (if Production = Production then productionEncoderConfig
                        else developmentEncoderConfig) [''/tmp/log.json''] = Inr s"
    and l: "New ''svc'' Production Info [''/tmp/log.json''] = Inr \<lparr> logger = s \<rparr>"
    using New_Inr [of "''svc''" Info Production "[''/tmp/log.json'']"] by blast
  have "development (base (logger \<lparr> logger = s \<rparr>)) = False"
    using newLogger_fields(2) [OF s] by simp
  moreover have "stderr quiet = []" "disk quiet ''/tmp/log.json'' = []"
    by (simp_all add: quiet_def)
  ultimately show ?thesis
    using l by (simp add: New_Panic [OF l])
qed

text \<open>
  Claim C9: for every logger handle, \<^verbatim>\<open>Fatal\<close>, \<^verbatim>\<open>Fatalf\<close> and \<^verbatim>\<open>Fatalln\<close>
  write the event and then terminate the process. On a logger built with a file path
  they do not: the event reaches standard error, then the file core dereferences the
  nil writer of C2 and the call ends in a runtime panic, which a caller can recover
  from. The process is not exited and the file does not receive the event.
\<close>

theorem C9_fatal_with_file_path:
  "\<exists>l. New ''svc'' Production Info [''/tmp/log.json''] = Inr l \<and>
      Logger_Fatal l [''boom''] quiet =
        Panics nil_dereference
          (quiet\<lparr>stderr := [console_line Production ''svc'' FatalLevel (Sprint [''boom''])]\<rparr>) \<and>
      Logger_Fatalf l ''%s'' [''boom''] quiet =
        Panics nil_dereference
          (quiet\<lparr>stderr := [console_line Production ''svc'' FatalLevel (Sprintf ''%s'' [''boom''])]\<rparr>) \<and>
      Logger_Fatalln l [''boom''] quiet =
        Panics nil_dereference
          (quiet\<lparr>stderr := [console_line Production ''svc'' FatalLevel (Sprintln [''boom''])]\<rparr>) \<and>
      disk (world_of (Logger_Fatal l [''boom''] quiet)) ''/tmp/log.json'' = []"
proof -
  obtain l where l: "New ''svc'' Production Info [''/tmp/log.json''] = Inr l"
    using New_Inr [of "''svc''" Info Production "[''/tmp/log.json'']"] by blast
  have "stderr quiet = []" "disk quiet ''/tmp/log.json'' = []"
    by (simp_all add: quiet_def)
  then show ?thesis
    using l by (simp add: New_Fatal [OF l])
qed

subsection \<open>Modes\<close>

text \<open>
  Claim C10: for every name, minimum severity and list of file paths, \<^verbatim>\<open>New\<close> with
  a mode other than Production, named or not, builds the logger it builds with the
  development mode: the one made from the development encoder configuration.
\<close>

theorem C10_other_modes_are_development:
  assumes "mode \<noteq> Production"
  shows "New nm mode minLevel filePaths = New nm Developemnt minLevel filePaths \<and>
         New nm mode minLevel filePaths =
           (case newLogger nm minLevel developmentEncoderConfig filePaths of
              Inl err \<Rightarrow> Inl err | Inr lg \<Rightarrow> Inr \<lparr> logger = lg \<rparr>)"
  using assms by (simp add: New_def Developemnt_def Production_def)

text \<open>The theorem at the unnamed modes 7 and -1.\<close>

theorem C10_other_modes_are_development_witness:
  "(7::int) \<noteq> Production \<and>
   New ''svc'' 7 Info [''/tmp/log.json''] = New ''svc'' Developemnt Info [''/tmp/log.json''] \<and>
   (- 1::int) \<noteq> Production \<and>
   New ''svc'' (- 1) Info [] = New ''svc'' Developemnt Info []"
  using C10_other_modes_are_development [of 7 "''svc''" Info "[''/tmp/log.json'']"]
    C10_other_modes_are_development [of "- 1" "''svc''" Info "[]"]
  by (simp add: Production_def)

end
